theory Spec2Isabelle
  imports Main "HOL-Library.AList" "HOL-Library.Sublist" "HOL-Library.Word"
    "HOL-Library.Code_Target_Numeral"
begin

section \<open>JavaScript values\<close>

text \<open>
  The library is generic in the success type \<open>T\<close> and the error type \<open>E\<close>, and at run
  time both are arbitrary JavaScript values: the matcher reads \<open>error._tag\<close> of whatever
  was put into the \<open>Err\<close> variant, and \<open>unwrap\<close> and \<open>unknownError\<close> serialise it.
  Values are therefore one datatype, the data fragment of JavaScript:
  \<^item> \<open>undefined\<close>, \<open>null\<close>, booleans, strings;
  \<^item> numbers that are integers from \<open>-2^53\<close> up to \<open>2^53 - 1\<close>, kept as the signed
    value of a 54-bit word, so that every \<open>JNum\<close> is a number the language has and prints
    in plain decimal;
  \<^item> BigInts, which are unbounded integers (the library offers them as payload through
    \<open>t.bigint\<close>);
  \<^item> plain objects, as the list of their own enumerable properties in the order
    \<open>Object.keys\<close> reports them (a well-formed object has no key twice), and arrays;
  \<^item> instances of \<open>Error\<close> and of the built-in error classes, which have a name and a
    message and no enumerable property of their own (instances of the classes
    \<open>makeTaggedError\<close> builds carry enumerable fields and are not in this fragment);
  \<^item> the wrapper objects \<open>Object(p)\<close> of a primitive \<open>p\<close>.
  An object that contains itself is no value of a datatype and is not in the fragment.
  Functions are not values of this datatype: callbacks and handlers are HOL functions.
\<close>

datatype primitive = PBool bool | PNum "54 word" | PBigInt int | PStr string

datatype jsval =
    JUndefined
  | JNull
  | JBool bool
  | JNum "54 word"
  | JBigInt int
  | JStr string
  | JObj "(string \<times> jsval) list"
  | JArr "jsval list"
  | JError string string
  | JBoxed primitive

type_synonym props = "(string \<times> jsval) list"

subsection \<open>Number and string conversions of the language\<close>

definition digit_char :: "nat \<Rightarrow> char" where
  "digit_char d = ''0123456789'' ! d"

function digits10 :: "nat \<Rightarrow> string" where
  "digits10 n = (if n < 10 then [digit_char n] else digits10 (n div 10) @ [digit_char (n mod 10)])"
  by pat_completeness auto
termination
  by (relation "measure id") auto

definition show_int :: "int \<Rightarrow> string" where
  "show_int i = (if i < 0 then CHR ''-'' # digits10 (nat (- i)) else digits10 (nat i))"

definition primitive_string :: "primitive \<Rightarrow> string" where
  "primitive_string p =
     (case p of
        PBool b \<Rightarrow> (if b then ''true'' else ''false'')
      | PNum n \<Rightarrow> show_int (sint n)
      | PBigInt i \<Rightarrow> show_int i
      | PStr s \<Rightarrow> s)"

fun join_with :: "string \<Rightarrow> string list \<Rightarrow> string" where
  "join_with sep [] = []"
| "join_with sep [x] = x"
| "join_with sep (x # y # ys) = x @ sep @ join_with sep (y # ys)"

text \<open>
  \<open>ToString\<close> is the conversion behind \<open>String(x)\<close>, a template literal \<open>`${x}`\<close> and a
  computed property key \<open>o[x]\<close>. On a plain object it calls the inherited
  \<open>Object.prototype.toString\<close>; an own data property named \<open>toString\<close> shadows
  that function with something that is not callable, and the conversion throws a
  TypeError.
  An array joins its elements with commas, \<open>null\<close> and \<open>undefined\<close> as the empty string.
  A wrapper object converts as the primitive it wraps.
\<close>

fun ToString :: "jsval \<Rightarrow> jsval + string"
  and ToString_elems :: "jsval list \<Rightarrow> jsval + string list" where
  "ToString JUndefined = Inr ''undefined''"
| "ToString JNull = Inr ''null''"
| "ToString (JBool b) = Inr (primitive_string (PBool b))"
| "ToString (JNum n) = Inr (primitive_string (PNum n))"
| "ToString (JBigInt i) = Inr (primitive_string (PBigInt i))"
| "ToString (JStr s) = Inr s"
| "ToString (JObj ps) =
     (if map_of ps ''toString'' = None then Inr ''[object Object]''
      else Inl (JError ''TypeError'' ''Cannot convert object to primitive value''))"
| "ToString (JArr xs) =
     (case ToString_elems xs of Inl e \<Rightarrow> Inl e | Inr ss \<Rightarrow> Inr (join_with '','' ss))"
| "ToString (JError name msg) =
     Inr (if name = [] then msg else if msg = [] then name else name @ '': '' @ msg)"
| "ToString (JBoxed p) = Inr (primitive_string p)"
| "ToString_elems [] = Inr []"
| "ToString_elems (x # xs) =
     (case (if x = JUndefined \<or> x = JNull then Inr [] else ToString x) of
        Inl e \<Rightarrow> Inl e
      | Inr s \<Rightarrow> (case ToString_elems xs of Inl e \<Rightarrow> Inl e | Inr ss \<Rightarrow> Inr (s # ss)))"

subsection \<open>JSON.stringify\<close>

definition hex_char :: "nat \<Rightarrow> char" where
  "hex_char d = ''0123456789abcdef'' ! d"

definition quote_char :: "char \<Rightarrow> string" where
  "quote_char c =
     (if c = CHR 0x22 then [CHR 0x5C, CHR 0x22]
      else if c = CHR 0x5C then [CHR 0x5C, CHR 0x5C]
      else if c = CHR 0x08 then [CHR 0x5C, CHR ''b'']
      else if c = CHR 0x09 then [CHR 0x5C, CHR ''t'']
      else if c = CHR 0x0A then [CHR 0x5C, CHR ''n'']
      else if c = CHR 0x0C then [CHR 0x5C, CHR ''f'']
      else if c = CHR 0x0D then [CHR 0x5C, CHR ''r'']
      else if (of_char c :: nat) < 32
        then [CHR 0x5C, CHR ''u'', CHR ''0'', CHR ''0'',
              hex_char (of_char c div 16), hex_char (of_char c mod 16)]
      else [c])"

definition QuoteJSONString :: "string \<Rightarrow> string" where
  "QuoteJSONString s = [CHR 0x22] @ concat (map quote_char s) @ [CHR 0x22]"

text \<open>
  \<open>JSON.stringify(x)\<close> returns \<open>undefined\<close> (here \<open>None\<close>) for \<open>undefined\<close>; inside an
  object an \<open>undefined\<close> property is left out, inside an array it prints as \<open>null\<close>. The
  own properties of an \<open>Error\<close> instance are not enumerable, so it prints as \<open>{}\<close>. A
  wrapper object prints as the primitive it wraps. A BigInt, at the top or anywhere
  inside, makes \<open>JSON.stringify\<close> throw a TypeError (\<open>Inl\<close>); the first one met in
  property order decides.
\<close>

definition BigInt_TypeError :: jsval where
  "BigInt_TypeError = JError ''TypeError'' ''Do not know how to serialize a BigInt''"

definition JSON_primitive :: "primitive \<Rightarrow> jsval + string option" where
  "JSON_primitive p =
     (case p of
        PBool b \<Rightarrow> Inr (Some (if b then ''true'' else ''false''))
      | PNum n \<Rightarrow> Inr (Some (show_int (sint n)))
      | PBigInt i \<Rightarrow> Inl BigInt_TypeError
      | PStr s \<Rightarrow> Inr (Some (QuoteJSONString s)))"

fun JSON_stringify :: "jsval \<Rightarrow> jsval + string option"
  and JSON_properties :: "props \<Rightarrow> jsval + string list"
  and JSON_elements :: "jsval list \<Rightarrow> jsval + string list" where
  "JSON_stringify JUndefined = Inr None"
| "JSON_stringify JNull = Inr (Some ''null'')"
| "JSON_stringify (JBool b) = JSON_primitive (PBool b)"
| "JSON_stringify (JNum n) = JSON_primitive (PNum n)"
| "JSON_stringify (JBigInt i) = JSON_primitive (PBigInt i)"
| "JSON_stringify (JStr s) = JSON_primitive (PStr s)"
| "JSON_stringify (JObj ps) =
     (case JSON_properties ps of
        Inl x \<Rightarrow> Inl x
      | Inr items \<Rightarrow> Inr (Some (''{'' @ join_with '','' items @ ''}'')))"
| "JSON_stringify (JArr xs) =
     (case JSON_elements xs of
        Inl x \<Rightarrow> Inl x
      | Inr items \<Rightarrow> Inr (Some (''['' @ join_with '','' items @ '']'')))"
| "JSON_stringify (JError name msg) = Inr (Some ''{}'')"
| "JSON_stringify (JBoxed p) = JSON_primitive p"
| "JSON_properties [] = Inr []"
| "JSON_properties (p # ps) =
     (case JSON_stringify (snd p) of
        Inl x \<Rightarrow> Inl x
      | Inr None \<Rightarrow> JSON_properties ps
      | Inr (Some str) \<Rightarrow>
          (case JSON_properties ps of
             Inl x \<Rightarrow> Inl x
           | Inr items \<Rightarrow> Inr ((QuoteJSONString (fst p) @ '':'' @ str) # items)))"
| "JSON_elements [] = Inr []"
| "JSON_elements (x # xs) =
     (case JSON_stringify x of
        Inl e \<Rightarrow> Inl e
      | Inr j \<Rightarrow>
          (case JSON_elements xs of
             Inl e \<Rightarrow> Inl e
           | Inr items \<Rightarrow> Inr ((case j of None \<Rightarrow> ''null'' | Some str \<Rightarrow> str) # items)))"

definition template_part :: "string option \<Rightarrow> string" where
  \<comment> \<open>a string-or-undefined value interpolated into a template literal\<close>
  "template_part x = (case x of None \<Rightarrow> ''undefined'' | Some s \<Rightarrow> s)"

subsection \<open>Object literals with a spread\<close>

text \<open>
  \<open>{ _tag: tag, ...props }\<close> creates the property \<open>_tag\<close> and then defines every own
  property of \<open>props\<close> on the new object, in order. Defining a key that exists replaces
  its value where it stands; a new key that is an array index (a canonical decimal
  numeral up to \<open>2^32 - 2\<close>) is enumerated before all other keys, in ascending order;
  any other new key goes last.
\<close>

definition is_digit :: "char \<Rightarrow> bool" where
  "is_digit c = (let n = (of_char c :: nat) in 48 \<le> n \<and> n \<le> 57)"

definition dec_val :: "string \<Rightarrow> nat" where
  "dec_val s = foldl (\<lambda>a c. 10 * a + (of_char c - 48)) 0 s"

definition is_array_index :: "string \<Rightarrow> bool" where
  "is_array_index s =
     (s \<noteq> [] \<and> list_all is_digit s \<and> (s = ''0'' \<or> hd s \<noteq> CHR ''0'')
      \<and> dec_val s \<le> 4294967294)"

fun insert_index :: "string \<Rightarrow> jsval \<Rightarrow> props \<Rightarrow> props" where
  "insert_index k v [] = [(k, v)]"
| "insert_index k v (p # ps) =
     (if is_array_index (fst p) \<and> dec_val (fst p) < dec_val k
      then p # insert_index k v ps else (k, v) # p # ps)"

definition define_prop :: "string \<Rightarrow> jsval \<Rightarrow> props \<Rightarrow> props" where
  "define_prop k v ps =
     (if map_of ps k \<noteq> None then AList.update k v ps
      else if is_array_index k then insert_index k v ps
      else ps @ [(k, v)])"

definition spread :: "props option \<Rightarrow> props \<Rightarrow> props" where
  \<comment> \<open>\<open>...props\<close> into the object built so far; spreading \<open>undefined\<close> adds nothing\<close>
  "spread props target =
     (case props of None \<Rightarrow> target | Some ps \<Rightarrow> fold (\<lambda>p. define_prop (fst p) (snd p)) ps target)"

definition read_tag :: "jsval \<Rightarrow> jsval + jsval" where
  \<comment> \<open>the property read \<open>error._tag\<close>: a TypeError on \<open>null\<close> and \<open>undefined\<close>,
      the own property of a plain object, \<open>undefined\<close> where there is none\<close>
  "read_tag e =
     (case e of
        JUndefined \<Rightarrow> Inl (JError ''TypeError'' ''Cannot read properties of undefined'')
      | JNull \<Rightarrow> Inl (JError ''TypeError'' ''Cannot read properties of null'')
      | JObj ps \<Rightarrow> Inr (case map_of ps ''_tag'' of None \<Rightarrow> JUndefined | Some t \<Rightarrow> t)
      | _ \<Rightarrow> Inr JUndefined)"

section \<open>result.ts: the Result container\<close>

datatype ('t, 'e) result = Ok 't | Err 'e

definition ok :: "'t \<Rightarrow> ('t, 'e) result" where
  "ok v = Ok v"

definition err :: "'e \<Rightarrow> ('t, 'e) result" where
  "err e = Err e"



type_synonym jsresult = "(jsval, jsval) result"

section \<open>Computations: a store of Box instances, outside state, exceptions\<close>

text \<open>
  A \<open>Box\<close> is an object: \<open>new Box(r)\<close> creates a fresh instance and \<open>return this\<close> hands
  back an existing one. The store \<open>boxes\<close> lists every instance created so far, and a
  reference to a \<open>Box\<close> is its position in the store. \<open>ext\<close> is whatever else a callback
  can read and write (a counter, a log). A computation of the program takes the world
  and returns the world it leaves, with either the value it returns (\<open>Inr\<close>) or the
  value it throws (\<open>Inl\<close>).
\<close>

type_synonym ref = nat

record 'u world =
  boxes :: "jsresult list"
  ext :: 'u

type_synonym ('a, 'u) js = "'u world \<Rightarrow> (jsval + 'a) \<times> 'u world"

definition js_return :: "'a \<Rightarrow> ('a, 'u) js" where
  "js_return a s = (Inr a, s)"

definition js_throw :: "jsval \<Rightarrow> ('a, 'u) js" where
  "js_throw x s = (Inl x, s)"

definition js_bind :: "('a, 'u) js \<Rightarrow> ('a \<Rightarrow> ('b, 'u) js) \<Rightarrow> ('b, 'u) js" where
  "js_bind m k s = (case m s of (Inl x, s') \<Rightarrow> (Inl x, s') | (Inr a, s') \<Rightarrow> k a s')"

definition js_lift :: "jsval + 'a \<Rightarrow> ('a, 'u) js" where
  \<comment> \<open>a step that touches nothing and returns or throws\<close>
  "js_lift x s = (x, s)"

section \<open>matcher.ts: matchExhaustive\<close>

text \<open>
  The handler table is read by key, \<open>config.ok\<close> and \<open>config[error._tag]\<close>: it is the
  function from keys to what that read yields, \<open>None\<close> where the read gives \<open>undefined\<close>.
  A handler takes the value or the error and is a computation of its own.
  The read is a plain property read, with no test that the key is the table's own: on a
  table written as an object literal it goes on to \<open>Object.prototype\<close>
  (\<open>object_literal\<close> below).
\<close>

type_synonym ('r, 'u) handler = "jsval \<Rightarrow> ('r, 'u) js"

type_synonym ('r, 'u) config = "string \<Rightarrow> ('r, 'u) handler option"

definition matchExhaustive :: "jsresult \<Rightarrow> ('r, 'u) config \<Rightarrow> ('r, 'u) js" where
  "matchExhaustive result config =
     (case result of
        Ok v \<Rightarrow>
          (case config ''ok'' of
             None \<Rightarrow> js_throw (JError ''TypeError'' ''config.ok is not a function'')
           | Some h \<Rightarrow> h v)
      | Err error \<Rightarrow>
          js_bind (js_lift (read_tag error)) (\<lambda>t.
          js_bind (js_lift (ToString t)) (\<lambda>key.
            (case config key of
               None \<Rightarrow> js_throw (JError ''Error'' (''Unhandled error tag: '' @ key))
             | Some handler \<Rightarrow> handler error))))"

text \<open>
  What a read finds on \<open>Object.prototype\<close>, and what it does when the matcher calls it
  as \<open>handler(error)\<close>, a plain call in module code, so with \<open>this\<close> undefined:
  \<open>toString\<close> answers \<open>[object Undefined]\<close>; \<open>constructor\<close> is \<open>Object\<close>, which
  returns an object as it is; \<open>isPrototypeOf\<close> answers \<open>false\<close> on a primitive; these
  and the other members convert \<open>this\<close> to an object, a TypeError; \<open>__proto__\<close> reads
  as the prototype object, which is no function. These handlers return JavaScript
  values, so a table with them has the result type \<open>jsval\<close>.
\<close>

definition Object_call :: "jsval \<Rightarrow> jsval" where
  \<comment> \<open>\<open>Object(value)\<close>\<close>
  "Object_call v =
     (case v of
        JUndefined \<Rightarrow> JObj []
      | JNull \<Rightarrow> JObj []
      | JBool b \<Rightarrow> JBoxed (PBool b)
      | JNum n \<Rightarrow> JBoxed (PNum n)
      | JBigInt i \<Rightarrow> JBoxed (PBigInt i)
      | JStr s \<Rightarrow> JBoxed (PStr s)
      | _ \<Rightarrow> v)"

definition is_primitive :: "jsval \<Rightarrow> bool" where
  "is_primitive v =
     (case v of
        JUndefined \<Rightarrow> True | JNull \<Rightarrow> True | JBool b \<Rightarrow> True | JNum n \<Rightarrow> True
      | JBigInt i \<Rightarrow> True | JStr s \<Rightarrow> True | _ \<Rightarrow> False)"

definition this_undefined :: jsval where
  "this_undefined = JError ''TypeError'' ''Cannot convert undefined or null to object''"

definition Object_prototype :: "string \<Rightarrow> (jsval, 'u) handler option" where
  "Object_prototype key =
     (if key = ''toString'' then Some (\<lambda>e. js_return (JStr ''[object Undefined]''))
      else if key = ''constructor'' then Some (\<lambda>e. js_return (Object_call e))
      else if key = ''isPrototypeOf''
        then Some (\<lambda>e. if is_primitive e then js_return (JBool False)
                        else js_throw this_undefined)
      else if key = ''hasOwnProperty'' \<or> key = ''propertyIsEnumerable''
        then Some (\<lambda>e. js_bind (js_lift (ToString e)) (\<lambda>p. js_throw this_undefined))
      else if key \<in> set [''valueOf'', ''toLocaleString'', ''__defineGetter__'',
                          ''__defineSetter__'', ''__lookupGetter__'', ''__lookupSetter__'']
        then Some (\<lambda>e. js_throw this_undefined)
      else if key = ''__proto__''
        then Some (\<lambda>e. js_throw (JError ''TypeError'' ''handler is not a function''))
      else None)"

definition object_literal :: "(string \<Rightarrow> (jsval, 'u) handler option) \<Rightarrow> (jsval, 'u) config" where
  \<comment> \<open>the reads of a table written as an object literal with these own entries\<close>
  "object_literal own key =
     (case own key of Some h \<Rightarrow> Some h | None \<Rightarrow> Object_prototype key)"

text \<open>
  The static side of the contract. An error union is the set of its tags; a Result
  inhabits \<open>Result<T, E>\<close> when it is a success or a failure whose error carries one of
  the tags of \<open>E\<close>; a handler table is complete for \<open>E\<close> when it has the \<open>ok\<close> entry and
  an entry for every tag of \<open>E\<close>.
\<close>

definition has_tag :: "jsval \<Rightarrow> string \<Rightarrow> bool" where
  "has_tag e t = (read_tag e = Inr (JStr t))"

definition in_union :: "string set \<Rightarrow> jsresult \<Rightarrow> bool" where
  "in_union tags r = (case r of Ok v \<Rightarrow> True | Err e \<Rightarrow> (\<exists>t\<in>tags. has_tag e t))"

definition complete_for :: "string set \<Rightarrow> ('r, 'u) config \<Rightarrow> bool" where
  "complete_for tags config = (config ''ok'' \<noteq> None \<and> (\<forall>t\<in>tags. config t \<noteq> None))"

definition returns :: "(jsval + 'a) \<times> 'u world \<Rightarrow> bool" where
  \<comment> \<open>the computation came back with a value instead of throwing\<close>
  "returns out = (case fst out of Inl x \<Rightarrow> False | Inr a \<Rightarrow> True)"

section \<open>box.ts: the synchronous wrapper\<close>

definition new_Box :: "jsresult \<Rightarrow> (ref, 'u) js" where
  "new_Box r s = (Inr (length (boxes s)), s\<lparr>boxes := boxes s @ [r]\<rparr>)"

definition this_result :: "ref \<Rightarrow> (jsresult, 'u) js" where
  \<comment> \<open>the field read \<open>this.result\<close>; only a reference into the store is a \<open>Box\<close>\<close>
  "this_result this s =
     (if this < length (boxes s) then (Inr (boxes s ! this), s)
      else (Inl (JError ''TypeError'' ''Cannot read properties of undefined''), s))"

definition Box_ok :: "jsval \<Rightarrow> (ref, 'u) js" where
  "Box_ok v = new_Box (ok v)"

definition Box_err :: "jsval \<Rightarrow> (ref, 'u) js" where
  "Box_err e = new_Box (err e)"

definition Box_fail :: "string \<Rightarrow> props option \<Rightarrow> (ref, 'u) js" where
  "Box_fail tag props = Box_err (JObj (spread props [(''_tag'', JStr tag)]))"

definition Box_map :: "ref \<Rightarrow> (jsval \<Rightarrow> (jsval, 'u) js) \<Rightarrow> (ref, 'u) js" where
  "Box_map this fn =
     js_bind (this_result this) (\<lambda>r.
       case r of
         Ok v \<Rightarrow> js_bind (fn v) (\<lambda>u. new_Box (ok u))
       | Err e \<Rightarrow> new_Box r)"


definition Box_flatMap :: "ref \<Rightarrow> (jsval \<Rightarrow> (ref, 'u) js) \<Rightarrow> (ref, 'u) js" where
  "Box_flatMap this fn =
     js_bind (this_result this) (\<lambda>r.
       case r of
         Ok v \<Rightarrow> fn v
       | Err e \<Rightarrow> js_return this)"

definition Box_catchTag :: "ref \<Rightarrow> string \<Rightarrow> (jsval \<Rightarrow> (ref, 'u) js) \<Rightarrow> (ref, 'u) js" where
  "Box_catchTag this tag handler =
     js_bind (this_result this) (\<lambda>r.
       case r of
         Err error \<Rightarrow>
           js_bind (js_lift (read_tag error)) (\<lambda>t.
             if t = JStr tag then handler error else js_return this)
       | Ok v \<Rightarrow> js_return this)"



definition Box_matchExhaustive :: "ref \<Rightarrow> ('r, 'u) config \<Rightarrow> ('r, 'u) js" where
  "Box_matchExhaustive this config =
     js_bind (this_result this) (\<lambda>r. matchExhaustive r config)"

definition Box_unwrapOr :: "ref \<Rightarrow> jsval \<Rightarrow> (jsval, 'u) js" where
  "Box_unwrapOr this defaultValue =
     js_bind (this_result this) (\<lambda>r.
       js_return (case r of Ok v \<Rightarrow> v | Err e \<Rightarrow> defaultValue))"

definition Box_unwrap :: "ref \<Rightarrow> (jsval, 'u) js" where
  "Box_unwrap this =
     js_bind (this_result this) (\<lambda>r.
       case r of
         Ok v \<Rightarrow> js_return v
       | Err e \<Rightarrow>
           js_bind (js_lift (JSON_stringify e)) (\<lambda>json.
             js_throw (JError ''Error'' (''Unwrap called on Err: '' @ template_part json))))"

definition Box_toResult :: "ref \<Rightarrow> (jsresult, 'u) js" where
  "Box_toResult this = this_result this"

section \<open>error.ts: tagged error factories\<close>

definition tagged_ctor :: "string \<Rightarrow> props option \<Rightarrow> jsval" where
  \<comment> \<open>the constructor \<open>(props?) => ({ _tag: tag, ...props })\<close>\<close>
  "tagged_ctor tag props = JObj (spread props [(''_tag'', JStr tag)])"

text \<open>
  \<open>defineErrors\<close> walks \<open>Object.keys(definitions)\<close> and stores one constructor per key
  in the object it returns; that object is read by key, like a handler table.
\<close>

definition defineErrors :: "(string \<times> 'd) list \<Rightarrow> (string \<Rightarrow> (props option \<Rightarrow> jsval) option)" where
  "defineErrors definitions =
     fold (\<lambda>tag result. result(tag \<mapsto> tagged_ctor tag)) (map fst definitions) Map.empty"

definition unknownError :: "jsval \<Rightarrow> jsval + jsval" where
  \<comment> \<open>\<open>cause instanceof Error ? cause.message : String(cause)\<close>; \<open>String\<close> can throw\<close>
  "unknownError cause =
     (case (case cause of JError name msg \<Rightarrow> Inr msg | _ \<Rightarrow> ToString cause) of
        Inl x \<Rightarrow> Inl x
      | Inr message \<Rightarrow>
          Inr (JObj [(''_tag'', JStr ''UnknownError''), (''cause'', cause),
                     (''message'', JStr message)]))"

section \<open>async\_box.ts: the asynchronous wrapper\<close>

text \<open>
  A promise is what it settles to: fulfilled with a value, rejected with a reason, or
  never settled. \<open>then\<close> and \<open>catch\<close> run their callback on the settled value; a callback
  that throws rejects the promise they return. An \<open>AsyncBox\<close> holds a promise of a
  Result, and \<open>run()\<close> hands that promise out.
\<close>

datatype 'a promise = Fulfilled 'a | Rejected jsval | Pending

definition promise_then :: "('a \<Rightarrow> jsval + 'b) \<Rightarrow> 'a promise \<Rightarrow> 'b promise" where
  "promise_then f p =
     (case p of
        Fulfilled v \<Rightarrow> (case f v of Inl x \<Rightarrow> Rejected x | Inr u \<Rightarrow> Fulfilled u)
      | Rejected e \<Rightarrow> Rejected e
      | Pending \<Rightarrow> Pending)"

definition promise_catch :: "(jsval \<Rightarrow> jsval + 'a) \<Rightarrow> 'a promise \<Rightarrow> 'a promise" where
  "promise_catch f p =
     (case p of
        Fulfilled v \<Rightarrow> Fulfilled v
      | Rejected e \<Rightarrow> (case f e of Inl x \<Rightarrow> Rejected x | Inr u \<Rightarrow> Fulfilled u)
      | Pending \<Rightarrow> Pending)"

definition Promise_resolve :: "'a \<Rightarrow> 'a promise" where
  "Promise_resolve v = Fulfilled v"

datatype asyncbox = AsyncBox "jsresult promise"


definition AsyncBox_fromPromise :: "jsval promise \<Rightarrow> (jsval \<Rightarrow> jsval + jsval) \<Rightarrow> asyncbox" where
  "AsyncBox_fromPromise p onError =
     AsyncBox
       (promise_catch (\<lambda>e. case onError e of Inl x \<Rightarrow> Inl x | Inr f \<Rightarrow> Inr (err f))
         (promise_then (\<lambda>v. Inr (ok v)) p))"

definition AsyncBox_ok :: "jsval \<Rightarrow> asyncbox" where
  "AsyncBox_ok v = AsyncBox (Promise_resolve (ok v))"

definition AsyncBox_err :: "jsval \<Rightarrow> asyncbox" where
  "AsyncBox_err e = AsyncBox (Promise_resolve (err e))"

definition AsyncBox_fail :: "string \<Rightarrow> props option \<Rightarrow> asyncbox" where
  "AsyncBox_fail tag props = AsyncBox_err (JObj (spread props [(''_tag'', JStr tag)]))"

text \<open>
  The argument of \<open>wrap\<close> is a function or a \<open>{ try, catch }\<close> object. The function is
  called at once, inside \<open>wrap\<close>: it either throws there (\<open>Inl\<close>) or returns a promise.
\<close>

datatype wrap_arg =
    WrapFn "unit \<Rightarrow> jsval + jsval promise"
  | WrapConfig "unit \<Rightarrow> jsval + jsval promise" "jsval \<Rightarrow> jsval + jsval"

definition AsyncBox_wrap :: "wrap_arg \<Rightarrow> jsval + asyncbox" where
  "AsyncBox_wrap fnOrConfig =
     (case fnOrConfig of
        WrapFn fn \<Rightarrow>
          (case fn () of Inl x \<Rightarrow> Inl x | Inr p \<Rightarrow> Inr (AsyncBox_fromPromise p unknownError))
      | WrapConfig try_fn catch_fn \<Rightarrow>
          (case try_fn () of Inl x \<Rightarrow> Inl x | Inr p \<Rightarrow> Inr (AsyncBox_fromPromise p catch_fn)))"

section \<open>Vocabulary of the properties\<close>


definition keeps_store :: "('a, 'u) js \<Rightarrow> bool" where
  "keeps_store m = (\<forall>s. prefix (boxes s) (boxes (snd (m s))))"

definition holds :: "'u world \<Rightarrow> ref \<Rightarrow> jsresult \<Rightarrow> bool" where
  "holds s b r = (b < length (boxes s) \<and> boxes s ! b = r)"










section \<open>Example values\<close>

definition notFound123 :: jsval where
  \<comment> \<open>\<open>{ _tag: "NotFound", id: "123" }\<close>\<close>
  "notFound123 = JObj [(''_tag'', JStr ''NotFound''), (''id'', JStr ''123'')]"

definition log_handler :: "string \<Rightarrow> (string, (string \<times> jsval) list) handler" where
  \<comment> \<open>a handler that records its name and argument in a log and returns its name\<close>
  "log_handler name a s = (Inr name, s\<lparr>ext := ext s @ [(name, a)]\<rparr>)"

definition logging_config :: "(string, (string \<times> jsval) list) config" where
  \<comment> \<open>the reads of a table at its own keys \<open>ok\<close>, \<open>NotFound\<close>, \<open>Unauthorized\<close>, the only
      ones the examples make\<close>
  "logging_config =
     [''ok'' \<mapsto> log_handler ''ok'',
      ''NotFound'' \<mapsto> log_handler ''NotFound'',
      ''Unauthorized'' \<mapsto> log_handler ''Unauthorized'']"

definition ok_only :: "string \<Rightarrow> (jsval, (string \<times> jsval) list) handler option" where
  \<comment> \<open>the own entries of \<open>{ ok: (value) => value }\<close>, the table of the test that casts
      it to a full \<open>MatchConfig\<close>\<close>
  "ok_only = [''ok'' \<mapsto> (\<lambda>value. js_return value)]"

definition tag_toString :: jsval where
  "tag_toString = JObj [(''_tag'', JStr ''toString'')]"

definition tag_constructor :: jsval where
  "tag_constructor = JObj [(''_tag'', JStr ''constructor''), (''id'', JStr ''123'')]"

definition tagZ :: jsval where
  "tagZ = JObj [(''_tag'', JStr ''Z'')]"

definition tagged_ok :: jsval where
  \<comment> \<open>an error whose discriminant is the string \<open>"ok"\<close>\<close>
  "tagged_ok = JObj [(''_tag'', JStr ''ok''), (''reason'', JStr ''collision'')]"

definition start_world :: "(string \<times> jsval) list world" where
  \<comment> \<open>no \<open>Box\<close> created yet, an empty log\<close>
  "start_world = \<lparr>boxes = [], ext = []\<rparr>"

definition double_and_count :: "jsval \<Rightarrow> (jsval, nat) js" where
  \<comment> \<open>a callback that counts its calls and doubles a number (within the 54 bits)\<close>
  "double_and_count v s =
     (Inr (case v of JNum n \<Rightarrow> JNum (2 * n) | _ \<Rightarrow> v), s\<lparr>ext := Suc (ext s)\<rparr>)"

definition counting_world :: "nat world" where
  \<comment> \<open>\<open>Box.ok(21)\<close> and \<open>Box.err({ _tag: "NotFound", id: "123" })\<close>, no call counted yet\<close>
  "counting_world = \<lparr>boxes = [Ok (JNum 21), Err notFound123], ext = 0\<rparr>"

definition step1Failed :: jsval where
  "step1Failed = JObj [(''_tag'', JStr ''Step1Failed'')]"

definition step1_world :: "(string \<times> jsval) list world" where
  \<comment> \<open>the world after \<open>Box.fail("Step1Failed")\<close>\<close>
  "step1_world = \<lparr>boxes = [Err step1Failed], ext = []\<rparr>"

definition step2 :: "jsval \<Rightarrow> (ref, (string \<times> jsval) list) js" where
  \<comment> \<open>a second fallible step that leaves a trace when it runs\<close>
  "step2 v = js_bind (log_handler ''step2'' v) (\<lambda>_. Box_fail ''Step2Failed'' None)"

definition steps_config :: "(string, (string \<times> jsval) list) config" where
  \<comment> \<open>likewise, at the keys \<open>ok\<close>, \<open>Step1Failed\<close>, \<open>Step2Failed\<close>\<close>
  "steps_config =
     [''ok'' \<mapsto> log_handler ''ok'',
      ''Step1Failed'' \<mapsto> log_handler ''Step1Failed'',
      ''Step2Failed'' \<mapsto> log_handler ''Step2Failed'']"

definition recover_with_zero :: "jsval \<Rightarrow> (ref, unit) js" where
  \<comment> \<open>\<open>_ => Box.ok(0)\<close>\<close>
  "recover_with_zero e = Box_ok (JNum 0)"

definition two_boxes :: "unit world" where
  "two_boxes = \<lparr>boxes = [Err notFound123, Ok (JNum 7)], ext = ()\<rparr>"

definition notFound_props :: props where
  \<comment> \<open>\<open>{ id: "123" }\<close>\<close>
  "notFound_props = [(''id'', JStr ''123'')]"

definition forged_props :: props where
  \<comment> \<open>props that bring a \<open>_tag\<close> of their own\<close>
  "forged_props = [(''_tag'', JStr ''Forged''), (''id'', JStr ''123'')]"

definition user_definitions :: "(string \<times> props option) list" where
  \<comment> \<open>\<open>{ NotFound: { userId: t.string }, Unauthorized: undefined }\<close>\<close>
  "user_definitions = [(''NotFound'', Some [(''userId'', JStr [])]), (''Unauthorized'', None)]"

definition overdrawn :: jsval where
  \<comment> \<open>\<open>{ _tag: "Overdrawn", amount: 10n }\<close>, a payload declared with \<open>t.bigint\<close>\<close>
  "overdrawn = JObj [(''_tag'', JStr ''Overdrawn''), (''amount'', JBigInt 10)]"

definition overdrawn_box :: "unit world" where
  "overdrawn_box = \<lparr>boxes = [Err overdrawn], ext = ()\<rparr>"

definition parse_invalid_json :: "unit \<Rightarrow> jsval + jsval promise" where
  \<comment> \<open>\<open>() => Promise.resolve(JSON.parse("{"))\<close>: \<open>JSON.parse\<close> throws before there is
      a promise\<close>
  "parse_invalid_json u = Inl (JError ''SyntaxError'' ''Unexpected end of JSON input'')"

definition throws_synchronously :: "unit \<Rightarrow> jsval + jsval promise" where
  \<comment> \<open>\<open>() => { throw new Error("boom") }\<close>, which has type \<open>() => Promise<T>\<close>\<close>
  "throws_synchronously u = Inl (JError ''Error'' ''boom'')"

definition rejects_failed :: "unit \<Rightarrow> jsval + jsval promise" where
  \<comment> \<open>\<open>() => Promise.reject(new Error("Failed"))\<close>\<close>
  "rejects_failed u = Inr (Rejected (JError ''Error'' ''Failed''))"

definition rejects_string :: "unit \<Rightarrow> jsval + jsval promise" where
  \<comment> \<open>\<open>() => Promise.reject("string error")\<close>\<close>
  "rejects_string u = Inr (Rejected (JStr ''string error''))"

definition resolves_42 :: "unit \<Rightarrow> jsval + jsval promise" where
  \<comment> \<open>\<open>() => Promise.resolve(42)\<close>\<close>
  "resolves_42 u = Inr (Fulfilled (JNum 42))"

definition to_fetch_error :: "jsval \<Rightarrow> jsval + jsval" where
  \<comment> \<open>a custom \<open>catch\<close> mapping\<close>
  "to_fetch_error e = Inr (JObj [(''_tag'', JStr ''FetchError''), (''cause'', e)])"





section \<open>Basic facts about computations\<close>

lemma js_bind_lift_Inr [simp]: "js_bind (js_lift (Inr a)) k = k a"
  by (rule ext) (simp add: js_bind_def js_lift_def)

lemma js_bind_lift_Inl [simp]: "js_bind (js_lift (Inl x)) k = js_throw x"
  by (rule ext) (simp add: js_bind_def js_lift_def js_throw_def)

lemma js_bind_this_result:
  "this < length (boxes s) \<Longrightarrow> js_bind (this_result this) k s = k (boxes s ! this) s"
  by (simp add: js_bind_def this_result_def)

lemma js_bind_holds [simp]:
  "holds s this r \<Longrightarrow> js_bind (this_result this) k s = k r s"
  by (simp add: holds_def js_bind_this_result)

lemma matchExhaustive_Ok:
  "config ''ok'' = Some h \<Longrightarrow> matchExhaustive (Ok v) config = h v"
  by (simp add: matchExhaustive_def)

lemma matchExhaustive_Err:
  "has_tag e t \<Longrightarrow> config t = Some h \<Longrightarrow> matchExhaustive (Err e) config = h e"
  by (simp add: matchExhaustive_def has_tag_def)

lemma matchExhaustive_Err_None:
  "has_tag e t \<Longrightarrow> config t = None \<Longrightarrow>
   matchExhaustive (Err e) config = js_throw (JError ''Error'' (''Unhandled error tag: '' @ t))"
  by (simp add: matchExhaustive_def has_tag_def)

lemma has_tag_notFound123: "has_tag notFound123 ''NotFound''"
  by (simp add: has_tag_def read_tag_def notFound123_def)

lemma JSON_notFound123:
  "JSON_stringify notFound123 = Inr (Some ''{\"_tag\":\"NotFound\",\"id\":\"123\"}'')"
  by (simp add: notFound123_def JSON_primitive_def QuoteJSONString_def quote_char_def)

section \<open>The exhaustive matcher\<close>

text \<open>
  C1. For every Result of type \<open>Result<T, E>\<close> and every handler table complete for
  \<open>E\<close>, \<open>matchExhaustive\<close> does exactly what one handler does: on \<open>Ok v\<close> it is the run
  of the \<open>ok\<close> handler on \<open>v\<close>, on a failure with tag \<open>t\<close> the run of the handler
  registered under \<open>t\<close> on the error object (tag and payload). Result and final world
  are those of that single run, for arbitrary handlers, so no other handler is invoked;
  and where no handler throws, \<open>matchExhaustive\<close> returns a value.
\<close>

theorem matchExhaustive_total_and_dispatch:
  assumes complete: "complete_for tags config" and typed: "in_union tags r"
  shows "(\<forall>v. r = Ok v \<longrightarrow>
            (\<exists>h. config ''ok'' = Some h \<and> matchExhaustive r config s = h v s))
       \<and> (\<forall>e t. r = Err e \<and> has_tag e t \<longrightarrow>
            (\<exists>h. config t = Some h \<and> matchExhaustive r config s = h e s))
       \<and> ((\<forall>k h a s'. config k = Some h \<longrightarrow> returns (h a s')) \<longrightarrow>
            returns (matchExhaustive r config s))"
proof (intro conjI allI impI)
  fix v assume "r = Ok v"
  moreover from complete obtain h where "config ''ok'' = Some h"
    by (auto simp: complete_for_def)
  ultimately show "\<exists>h. config ''ok'' = Some h \<and> matchExhaustive r config s = h v s"
    by (simp add: matchExhaustive_Ok)
next
  fix e t assume "r = Err e \<and> has_tag e t"
  then have r: "r = Err e" and t: "has_tag e t" by simp_all
  from typed r obtain t' where t': "t' \<in> tags" "has_tag e t'"
    by (auto simp: in_union_def)
  with t have "t' = t" by (simp add: has_tag_def)
  with t' complete obtain h where "config t = Some h"
    by (auto simp: complete_for_def)
  with r t show "\<exists>h. config t = Some h \<and> matchExhaustive r config s = h e s"
    by (simp add: matchExhaustive_Err)
next
  assume quiet: "\<forall>k h a s'. config k = Some h \<longrightarrow> returns (h a s')"
  show "returns (matchExhaustive r config s)"
  proof (cases r)
    case (Ok v)
    from complete obtain h where h: "config ''ok'' = Some h"
      by (auto simp: complete_for_def)
    with quiet have "returns (h v s)" by blast
    with Ok h show ?thesis by (simp add: matchExhaustive_Ok)
  next
    case (Err e)
    with typed obtain t where t: "t \<in> tags" "has_tag e t"
      by (auto simp: in_union_def)
    with complete obtain h where h: "config t = Some h"
      by (auto simp: complete_for_def)
    with quiet have "returns (h e s)" by blast
    with Err t h show ?thesis by (simp add: matchExhaustive_Err)
  qed
qed

text \<open>
  With logging handlers the log shows the calls: a \<open>NotFound\<close> failure reaches the
  \<open>NotFound\<close> handler once, with the error, and a success reaches \<open>ok\<close> once.
\<close>

theorem matchExhaustive_total_and_dispatch_witness:
  "complete_for {''NotFound'', ''Unauthorized''} logging_config
   \<and> in_union {''NotFound'', ''Unauthorized''} (Err notFound123)
   \<and> has_tag notFound123 ''NotFound''
   \<and> matchExhaustive (Err notFound123) logging_config start_world
       = (Inr ''NotFound'', \<lparr>boxes = [], ext = [(''NotFound'', notFound123)]\<rparr>)
   \<and> matchExhaustive (Ok (JNum 42)) logging_config start_world
       = (Inr ''ok'', \<lparr>boxes = [], ext = [(''ok'', JNum 42)]\<rparr>)
   \<and> returns (matchExhaustive (Err notFound123) logging_config start_world)"
proof -
  have c: "complete_for {''NotFound'', ''Unauthorized''} logging_config"
    by (simp add: complete_for_def logging_config_def)
  have u: "in_union {''NotFound'', ''Unauthorized''} (Err notFound123)"
    by (simp add: in_union_def has_tag_notFound123)
  have u': "in_union {''NotFound'', ''Unauthorized''} (Ok (JNum 42))"
    by (simp add: in_union_def)
  have q: "\<forall>k h a s'. logging_config k = Some h \<longrightarrow> returns (h a s')"
    by (auto simp: logging_config_def returns_def log_handler_def split: if_splits)
  note on_err = matchExhaustive_total_and_dispatch [OF c u, of start_world]
  note on_ok = matchExhaustive_total_and_dispatch [OF c u', of start_world]
  from on_err has_tag_notFound123 obtain h where
    h: "logging_config ''NotFound'' = Some h"
       "matchExhaustive (Err notFound123) logging_config start_world = h notFound123 start_world"
    by blast
  from h(1) have "h = log_handler ''NotFound''" by (simp add: logging_config_def)
  with h(2) have e1: "matchExhaustive (Err notFound123) logging_config start_world
       = (Inr ''NotFound'', \<lparr>boxes = [], ext = [(''NotFound'', notFound123)]\<rparr>)"
    by (simp add: log_handler_def start_world_def)
  from on_ok obtain h' where
    h': "logging_config ''ok'' = Some h'"
        "matchExhaustive (Ok (JNum 42)) logging_config start_world = h' (JNum 42) start_world"
    by blast
  from h'(1) have "h' = log_handler ''ok''" by (simp add: logging_config_def)
  with h'(2) have e2: "matchExhaustive (Ok (JNum 42)) logging_config start_world
       = (Inr ''ok'', \<lparr>boxes = [], ext = [(''ok'', JNum 42)]\<rparr>)"
    by (simp add: log_handler_def start_world_def)
  from on_err q have e3: "returns (matchExhaustive (Err notFound123) logging_config start_world)"
    by blast
  from c u has_tag_notFound123 e1 e2 e3 show ?thesis by blast
qed

text \<open>
  C2. The throw for an unhandled tag is taken when the read \<open>config[error._tag]\<close> yields
  nothing: on the table \<open>{ ok }\<close>, cast to a full table, the tag \<open>Z\<close> throws an \<open>Error\<close>
  with the message \<open>Unhandled error tag: Z\<close>. But the read is not restricted to the
  table's own entries. For the tag \<open>toString\<close>, which has no handler in that table, it
  finds \<open>Object.prototype.toString\<close>: nothing is thrown and the matcher returns
  \<open>[object Undefined]\<close>. For the tag \<open>constructor\<close> it finds \<open>Object\<close> and returns the
  error itself.
\<close>

theorem matchExhaustive_calls_inherited_member:
  "ok_only ''Z'' = None
   \<and> matchExhaustive (Err tagZ) (object_literal ok_only) start_world
       = (Inl (JError ''Error'' ''Unhandled error tag: Z''), start_world)
   \<and> ok_only ''toString'' = None
   \<and> matchExhaustive (Err tag_toString) (object_literal ok_only) start_world
       = (Inr (JStr ''[object Undefined]''), start_world)
   \<and> ok_only ''constructor'' = None
   \<and> matchExhaustive (Err tag_constructor) (object_literal ok_only) start_world
       = (Inr tag_constructor, start_world)"
proof -
  have z: "matchExhaustive (Err tagZ) (object_literal ok_only) start_world
       = (Inl (JError ''Error'' ''Unhandled error tag: Z''), start_world)"
    by (simp add: matchExhaustive_def read_tag_def tagZ_def object_literal_def ok_only_def
                  Object_prototype_def js_throw_def)
  have t: "matchExhaustive (Err tag_toString) (object_literal ok_only) start_world
       = (Inr (JStr ''[object Undefined]''), start_world)"
    by (simp add: matchExhaustive_def read_tag_def tag_toString_def object_literal_def
                  ok_only_def Object_prototype_def js_return_def)
  have c: "matchExhaustive (Err tag_constructor) (object_literal ok_only) start_world
       = (Inr tag_constructor, start_world)"
    by (simp add: matchExhaustive_def read_tag_def tag_constructor_def object_literal_def
                  ok_only_def Object_prototype_def js_return_def Object_call_def)
  have n: "ok_only ''Z'' = None" "ok_only ''toString'' = None" "ok_only ''constructor'' = None"
    by (simp_all add: ok_only_def)
  from n z t c show ?thesis by (intro conjI)
qed

text \<open>
  C9. A failure whose discriminant is the string \<open>ok\<close> is looked up under the key
  \<open>ok\<close>, where the handler table keeps its success handler: \<open>matchExhaustive\<close> is then
  the run of the success handler on the error object, and the unhandled-tag branch is
  not taken.
\<close>

theorem matchExhaustive_ok_tag_reaches_ok_handler:
  assumes "has_tag e ''ok''" and "config ''ok'' = Some h"
  shows "matchExhaustive (Err e) config s = h e s"
  using assms by (simp add: matchExhaustive_Err)

theorem matchExhaustive_ok_tag_reaches_ok_handler_witness:
  "has_tag tagged_ok ''ok'' \<and> logging_config ''ok'' = Some (log_handler ''ok'')
   \<and> matchExhaustive (Err tagged_ok) logging_config start_world
       = (Inr ''ok'', \<lparr>boxes = [], ext = [(''ok'', tagged_ok)]\<rparr>)"
proof -
  have t: "has_tag tagged_ok ''ok''"
    by (simp add: has_tag_def read_tag_def tagged_ok_def)
  have c: "logging_config ''ok'' = Some (log_handler ''ok'')"
    by (simp add: logging_config_def)
  from matchExhaustive_ok_tag_reaches_ok_handler
         [of tagged_ok logging_config "log_handler ''ok''" start_world] t c
  show ?thesis by (simp add: log_handler_def start_world_def)
qed

section \<open>The synchronous wrapper\<close>

text \<open>
  C3. On a wrapper holding \<open>Ok v\<close>, \<open>map(fn)\<close> is one run of \<open>fn\<close> on \<open>v\<close> followed by
  the creation of a wrapper: when that run returns \<open>u\<close>, the result is a new wrapper
  holding \<open>Ok u\<close> in the world \<open>fn\<close> left. On a wrapper holding \<open>Err e\<close>, \<open>fn\<close> does not
  occur: the result is a new wrapper holding \<open>Err e\<close> and nothing else changes.
\<close>

theorem Box_map_runs_fn_once_on_success_only:
  "(holds s this (Ok v) \<longrightarrow>
      Box_map this fn s = js_bind (fn v) (\<lambda>u. new_Box (Ok u)) s
    \<and> (\<forall>u s'. fn v s = (Inr u, s') \<longrightarrow>
         Box_map this fn s = (Inr (length (boxes s')), s'\<lparr>boxes := boxes s' @ [Ok u]\<rparr>)))
 \<and> (holds s this (Err e) \<longrightarrow>
      Box_map this fn s = (Inr (length (boxes s)), s\<lparr>boxes := boxes s @ [Err e]\<rparr>))"
  by (simp add: Box_map_def ok_def) (simp add: js_bind_def new_Box_def)

text \<open>
  With a callback that counts its calls: one call on the success, none on the failure.
\<close>

theorem Box_map_runs_fn_once_on_success_only_witness:
  "holds counting_world 0 (Ok (JNum 21))
   \<and> holds counting_world 1 (Err notFound123)
   \<and> Box_map 0 double_and_count counting_world
       = (Inr 2, \<lparr>boxes = [Ok (JNum 21), Err notFound123, Ok (JNum 42)], ext = 1\<rparr>)
   \<and> Box_map 1 double_and_count counting_world
       = (Inr 2, \<lparr>boxes = [Ok (JNum 21), Err notFound123, Err notFound123], ext = 0\<rparr>)"
proof -
  let ?s = counting_world
  have h0: "holds ?s 0 (Ok (JNum 21))" and h1: "holds ?s 1 (Err notFound123)"
    by (simp_all add: holds_def counting_world_def)
  have f: "double_and_count (JNum 21) ?s = (Inr (JNum 42), ?s\<lparr>ext := 1\<rparr>)"
    by (simp add: double_and_count_def counting_world_def)
  note on_ok = Box_map_runs_fn_once_on_success_only
                 [of ?s 0 "JNum 21" double_and_count notFound123, THEN conjunct1]
  note on_err = Box_map_runs_fn_once_on_success_only
                 [of ?s 1 "JNum 21" double_and_count notFound123, THEN conjunct2]
  from on_ok h0 have "\<forall>u s'. double_and_count (JNum 21) ?s = (Inr u, s') \<longrightarrow>
         Box_map 0 double_and_count ?s = (Inr (length (boxes s')), s'\<lparr>boxes := boxes s' @ [Ok u]\<rparr>)"
    by blast
  with f have "Box_map 0 double_and_count ?s
       = (Inr (length (boxes (?s\<lparr>ext := 1\<rparr>))),
          (?s\<lparr>ext := 1\<rparr>)\<lparr>boxes := boxes (?s\<lparr>ext := 1\<rparr>) @ [Ok (JNum 42)]\<rparr>)"
    by blast
  then have a: "Box_map 0 double_and_count ?s
       = (Inr 2, \<lparr>boxes = [Ok (JNum 21), Err notFound123, Ok (JNum 42)], ext = 1\<rparr>)"
    by (simp add: counting_world_def)
  from on_err h1 have "Box_map 1 double_and_count ?s
       = (Inr (length (boxes ?s)), ?s\<lparr>boxes := boxes ?s @ [Err notFound123]\<rparr>)"
    by blast
  then have b: "Box_map 1 double_and_count ?s
       = (Inr 2, \<lparr>boxes = [Ok (JNum 21), Err notFound123, Err notFound123], ext = 0\<rparr>)"
    by (simp add: counting_world_def)
  from h0 h1 a b show ?thesis by blast
qed

text \<open>
  C4. On a wrapper holding \<open>Ok v\<close>, \<open>flatMap(fn)\<close> is the run of \<open>fn\<close> on \<open>v\<close> and
  returns the wrapper \<open>fn\<close> returns. On a wrapper holding \<open>Err e\<close> it returns the receiver
  and changes nothing, so \<open>fn\<close> has not run; matching the outcome of such a chain is
  matching \<open>Err e\<close>, that is, the run of the handler for the tag of \<open>e\<close> alone.
\<close>

theorem Box_flatMap_short_circuits:
  "(holds s this (Ok v) \<longrightarrow> Box_flatMap this fn s = fn v s)
 \<and> (holds s this (Err e) \<longrightarrow>
      Box_flatMap this fn s = (Inr this, s)
    \<and> js_bind (Box_flatMap this fn) (\<lambda>b. Box_matchExhaustive b config) s
        = matchExhaustive (Err e) config s
    \<and> (\<forall>t h. has_tag e t \<and> config t = Some h \<longrightarrow>
          js_bind (Box_flatMap this fn) (\<lambda>b. Box_matchExhaustive b config) s = h e s))"
proof (intro conjI impI)
  assume "holds s this (Ok v)"
  then show "Box_flatMap this fn s = fn v s"
    by (simp add: Box_flatMap_def)
next
  assume e: "holds s this (Err e)"
  then show pass: "Box_flatMap this fn s = (Inr this, s)"
    by (simp add: Box_flatMap_def js_return_def)
  from e have m: "Box_matchExhaustive this config s = matchExhaustive (Err e) config s"
    by (simp add: Box_matchExhaustive_def)
  from pass m
  show chain: "js_bind (Box_flatMap this fn) (\<lambda>b. Box_matchExhaustive b config) s
        = matchExhaustive (Err e) config s"
    by (simp add: js_bind_def)
  show "\<forall>t h. has_tag e t \<and> config t = Some h \<longrightarrow>
          js_bind (Box_flatMap this fn) (\<lambda>b. Box_matchExhaustive b config) s = h e s"
    using chain by (auto simp: matchExhaustive_Err)
qed

text \<open>
  Two chained steps, the first failing with \<open>Step1Failed\<close>: the second step would leave
  a \<open>step2\<close> entry in the log, and the log holds the call of the first handler only.
\<close>

theorem Box_flatMap_short_circuits_witness:
  "holds step1_world 0 (Err step1Failed)
   \<and> has_tag step1Failed ''Step1Failed''
   \<and> steps_config ''Step1Failed'' = Some (log_handler ''Step1Failed'')
   \<and> Box_fail ''Step1Failed'' None start_world = (Inr 0, step1_world)
   \<and> Box_flatMap 0 step2 step1_world = (Inr 0, step1_world)
   \<and> js_bind (Box_flatMap 0 step2) (\<lambda>b. Box_matchExhaustive b steps_config) step1_world
       = (Inr ''Step1Failed'', step1_world\<lparr>ext := [(''Step1Failed'', step1Failed)]\<rparr>)"
proof -
  have h: "holds step1_world 0 (Err step1Failed)"
    by (simp add: holds_def step1_world_def)
  have t: "has_tag step1Failed ''Step1Failed''"
    by (simp add: has_tag_def read_tag_def step1Failed_def)
  have c: "steps_config ''Step1Failed'' = Some (log_handler ''Step1Failed'')"
    by (simp add: steps_config_def)
  have f: "Box_fail ''Step1Failed'' None start_world = (Inr 0, step1_world)"
    by (simp add: Box_fail_def Box_err_def err_def new_Box_def spread_def start_world_def
                  step1_world_def step1Failed_def)
  note on_failure = Box_flatMap_short_circuits
               [of step1_world 0 "JNum 0" step2 step1Failed steps_config, THEN conjunct2]
  from on_failure h have p: "Box_flatMap 0 step2 step1_world = (Inr 0, step1_world)"
    by blast
  from on_failure h t c
  have "js_bind (Box_flatMap 0 step2) (\<lambda>b. Box_matchExhaustive b steps_config) step1_world
          = log_handler ''Step1Failed'' step1Failed step1_world"
    by blast
  then have m: "js_bind (Box_flatMap 0 step2) (\<lambda>b. Box_matchExhaustive b steps_config) step1_world
       = (Inr ''Step1Failed'', step1_world\<lparr>ext := [(''Step1Failed'', step1Failed)]\<rparr>)"
    by (simp add: log_handler_def step1_world_def)
  from h t c f p m show ?thesis by blast
qed

text \<open>
  C5. On a wrapper holding a failure whose discriminant equals \<open>tag\<close>,
  \<open>catchTag(tag, handler)\<close> is the run of \<open>handler\<close> on that error and returns the
  wrapper \<open>handler\<close> returns. On a wrapper holding a success, or a failure with another
  discriminant, it returns the receiver and changes nothing, so \<open>handler\<close> has not run.
  And \<open>Box.err({ _tag: "NotFound", id: "123" })\<close>, then
  \<open>catchTag("NotFound", _ => Box.ok(0))\<close>, then \<open>unwrapOr(-1)\<close> returns \<open>0\<close>.
\<close>

theorem Box_catchTag_recovers_matching_tag_only:
  "(holds s this (Err e) \<and> has_tag e tag \<longrightarrow> Box_catchTag this tag handler s = handler e s)
 \<and> (holds s this (Ok v) \<longrightarrow> Box_catchTag this tag handler s = (Inr this, s))
 \<and> (holds s this (Err e) \<and> (\<exists>t. read_tag e = Inr t \<and> t \<noteq> JStr tag) \<longrightarrow>
      Box_catchTag this tag handler s = (Inr this, s))
 \<and> js_bind (Box_err notFound123) (\<lambda>b.
      js_bind (Box_catchTag b ''NotFound'' (\<lambda>_. Box_ok (JNum 0))) (\<lambda>b'.
        Box_unwrapOr b' (JNum (- 1)))) s
      = (Inr (JNum 0), s\<lparr>boxes := boxes s @ [Err notFound123, Ok (JNum 0)]\<rparr>)"
proof (intro conjI impI)
  assume "holds s this (Err e) \<and> has_tag e tag"
  then show "Box_catchTag this tag handler s = handler e s"
    by (auto simp: Box_catchTag_def has_tag_def)
next
  assume "holds s this (Ok v)"
  then show "Box_catchTag this tag handler s = (Inr this, s)"
    by (simp add: Box_catchTag_def js_return_def)
next
  assume "holds s this (Err e) \<and> (\<exists>t. read_tag e = Inr t \<and> t \<noteq> JStr tag)"
  then show "Box_catchTag this tag handler s = (Inr this, s)"
    by (auto simp: Box_catchTag_def js_return_def)
next
  let ?s1 = "s\<lparr>boxes := boxes s @ [Err notFound123]\<rparr>"
  let ?s2 = "s\<lparr>boxes := boxes s @ [Err notFound123, Ok (JNum 0)]\<rparr>"
  have a: "Box_err notFound123 s = (Inr (length (boxes s)), ?s1)"
    by (simp add: Box_err_def err_def new_Box_def)
  have h1: "holds ?s1 (length (boxes s)) (Err notFound123)"
    by (simp add: holds_def)
  have b: "Box_catchTag (length (boxes s)) ''NotFound'' (\<lambda>_. Box_ok (JNum 0)) ?s1
             = (Inr (Suc (length (boxes s))), ?s2)"
    using h1 has_tag_notFound123
    by (simp add: Box_catchTag_def has_tag_def Box_ok_def ok_def new_Box_def)
  have h2: "holds ?s2 (Suc (length (boxes s))) (Ok (JNum 0))"
    by (simp add: holds_def nth_append)
  have c: "Box_unwrapOr (Suc (length (boxes s))) (JNum (- 1)) ?s2 = (Inr (JNum 0), ?s2)"
    using h2 by (simp add: Box_unwrapOr_def js_return_def)
  show "js_bind (Box_err notFound123) (\<lambda>b.
      js_bind (Box_catchTag b ''NotFound'' (\<lambda>_. Box_ok (JNum 0))) (\<lambda>b'.
        Box_unwrapOr b' (JNum (- 1)))) s = (Inr (JNum 0), ?s2)"
    using a b c by (simp add: js_bind_def)
qed

theorem Box_catchTag_recovers_matching_tag_only_witness:
  "holds two_boxes 0 (Err notFound123)
   \<and> has_tag notFound123 ''NotFound''
   \<and> Box_catchTag 0 ''NotFound'' recover_with_zero two_boxes
       = (Inr 2, \<lparr>boxes = [Err notFound123, Ok (JNum 7), Ok (JNum 0)], ext = ()\<rparr>)
   \<and> Box_catchTag 1 ''NotFound'' recover_with_zero two_boxes = (Inr 1, two_boxes)
   \<and> Box_catchTag 0 ''Unauthorized'' recover_with_zero two_boxes = (Inr 0, two_boxes)"
proof -
  let ?s = two_boxes
  let ?h = recover_with_zero
  have h0: "holds ?s 0 (Err notFound123)" and h1: "holds ?s 1 (Ok (JNum 7))"
    by (simp_all add: holds_def two_boxes_def)
  have other: "\<exists>t. read_tag notFound123 = Inr t \<and> t \<noteq> JStr ''Unauthorized''"
    by (simp add: read_tag_def notFound123_def)
  note hit = Box_catchTag_recovers_matching_tag_only
               [of ?s 0 notFound123 "''NotFound''" ?h "JNum 7", THEN conjunct1]
  note pass_ok = Box_catchTag_recovers_matching_tag_only
               [of ?s 1 notFound123 "''NotFound''" ?h "JNum 7", THEN conjunct2, THEN conjunct1]
  note pass_err = Box_catchTag_recovers_matching_tag_only
               [of ?s 0 notFound123 "''Unauthorized''" ?h "JNum 7",
                THEN conjunct2, THEN conjunct2, THEN conjunct1]
  from hit h0 has_tag_notFound123
  have "Box_catchTag 0 ''NotFound'' ?h ?s = recover_with_zero notFound123 ?s"
    by blast
  then have a: "Box_catchTag 0 ''NotFound'' ?h ?s
       = (Inr 2, \<lparr>boxes = [Err notFound123, Ok (JNum 7), Ok (JNum 0)], ext = ()\<rparr>)"
    by (simp add: recover_with_zero_def Box_ok_def ok_def new_Box_def two_boxes_def)
  from pass_ok h1 have b: "Box_catchTag 1 ''NotFound'' ?h ?s = (Inr 1, ?s)"
    by blast
  from pass_err h0 other have c: "Box_catchTag 0 ''Unauthorized'' ?h ?s = (Inr 0, ?s)"
    by blast
  from h0 has_tag_notFound123 a b c show ?thesis by blast
qed

text \<open>
  What \<open>unwrap()\<close> does: on \<open>Ok v\<close> it returns \<open>v\<close>; on \<open>Err e\<close> it first evaluates
  \<open>JSON.stringify(e)\<close>, and throws an \<open>Error\<close> with the message
  \<open>Unwrap called on Err: \<close> followed by the serialised error when that returns, and
  whatever \<open>JSON.stringify\<close> throws when it throws.
\<close>

lemma Box_unwrap_cases:
  "(holds s this (Ok v) \<longrightarrow> Box_unwrap this s = (Inr v, s))
 \<and> (holds s this (Err e) \<and> JSON_stringify e = Inr json \<longrightarrow>
      Box_unwrap this s
        = (Inl (JError ''Error'' (''Unwrap called on Err: '' @ template_part json)), s))
 \<and> (holds s this (Err e) \<and> JSON_stringify e = Inl x \<longrightarrow> Box_unwrap this s = (Inl x, s))"
  by (auto simp: Box_unwrap_def js_return_def js_throw_def)

lemma JSON_overdrawn: "JSON_stringify overdrawn = Inl BigInt_TypeError"
  by (simp add: overdrawn_def JSON_primitive_def QuoteJSONString_def quote_char_def)

text \<open>
  C6. \<open>unwrap()\<close> on a wrapper holding \<open>Ok 7\<close> returns \<open>7\<close>, and on a wrapper holding
  the failure \<open>{ _tag: "NotFound", id: "123" }\<close> it throws an \<open>Error\<close> whose message
  carries the serialised error. On a wrapper holding a failure with a BigInt payload,
  \<open>{ _tag: "Overdrawn", amount: 10n }\<close>, the serialisation throws before the \<open>Error\<close> is
  built: what \<open>unwrap()\<close> raises is the TypeError of \<open>JSON.stringify\<close>, and its message
  says nothing of the error held.
\<close>

theorem Box_unwrap_loses_unserialisable_error:
  "Box_unwrap 1 two_boxes = (Inr (JNum 7), two_boxes)
   \<and> Box_unwrap 0 two_boxes
       = (Inl (JError ''Error'' ''Unwrap called on Err: {\"_tag\":\"NotFound\",\"id\":\"123\"}''),
          two_boxes)
   \<and> Box_unwrap 0 overdrawn_box
       = (Inl (JError ''TypeError'' ''Do not know how to serialize a BigInt''), overdrawn_box)"
proof -
  have h0: "holds two_boxes 0 (Err notFound123)" and h1: "holds two_boxes 1 (Ok (JNum 7))"
    by (simp_all add: holds_def two_boxes_def)
  have h2: "holds overdrawn_box 0 (Err overdrawn)"
    by (simp add: holds_def overdrawn_box_def)
  from h1 have a: "Box_unwrap 1 two_boxes = (Inr (JNum 7), two_boxes)"
    by (simp add: Box_unwrap_def js_return_def)
  from h0 have b: "Box_unwrap 0 two_boxes
       = (Inl (JError ''Error'' ''Unwrap called on Err: {\"_tag\":\"NotFound\",\"id\":\"123\"}''),
          two_boxes)"
    by (simp add: Box_unwrap_def JSON_notFound123 template_part_def js_throw_def)
  from h2 have c: "Box_unwrap 0 overdrawn_box
       = (Inl (JError ''TypeError'' ''Do not know how to serialize a BigInt''), overdrawn_box)"
    by (simp add: Box_unwrap_def JSON_overdrawn BigInt_TypeError_def js_throw_def)
  from a b c show ?thesis by (intro conjI)
qed

section \<open>Tagged error constructors\<close>

lemma map_of_insert_index:
  "map_of ps k = None \<Longrightarrow> map_of (insert_index k v ps) = (map_of ps)(k \<mapsto> v)"
proof (induction ps)
  case Nil
  then show ?case by simp
next
  case (Cons p ps)
  then have "fst p \<noteq> k" and "map_of ps k = None"
    by (cases p; simp split: if_splits)+
  with Cons.IH show ?case
    by (cases p) (auto simp: fun_eq_iff)
qed

lemma keys_insert_index:
  "fst ` set (insert_index k v ps) = insert k (fst ` set ps)"
  by (induction ps) auto

lemma distinct_insert_index:
  "distinct (map fst ps) \<Longrightarrow> k \<notin> fst ` set ps \<Longrightarrow> distinct (map fst (insert_index k v ps))"
proof (induction ps)
  case Nil
  then show ?case by simp
next
  case (Cons p ps)
  then show ?case
    using keys_insert_index [of k v ps] by auto
qed

lemma map_of_define_prop:
  "map_of (define_prop k v ps) = (map_of ps)(k \<mapsto> v)"
proof (cases "map_of ps k")
  case None
  then have "map_of (ps @ [(k, v)]) = (map_of ps)(k \<mapsto> v)"
    by (auto simp: map_add_def fun_eq_iff split: option.splits)
  with None show ?thesis
    by (simp add: define_prop_def map_of_insert_index)
next
  case (Some x)
  then show ?thesis
    by (simp add: define_prop_def update_conv')
qed

lemma distinct_define_prop:
  "distinct (map fst ps) \<Longrightarrow> distinct (map fst (define_prop k v ps))"
  by (auto simp: define_prop_def distinct_update distinct_insert_index map_of_eq_None_iff)

lemma map_of_fold_define_prop:
  "map_of (fold (\<lambda>p. define_prop (fst p) (snd p)) ps target) = map_of target ++ map_of (rev ps)"
proof (induction ps arbitrary: target)
  case Nil
  then show ?case by simp
next
  case (Cons p ps)
  let ?f = "\<lambda>p. define_prop (fst p) (snd p)"
  have step: "(map_of target)(fst p \<mapsto> snd p) ++ map_of (rev ps)
                = map_of target ++ map_of (rev (p # ps))"
    by (cases p) (auto simp: fun_eq_iff map_add_def split: option.splits)
  have "map_of (fold ?f (p # ps) target) = map_of (fold ?f ps (define_prop (fst p) (snd p) target))"
    by simp
  also have "\<dots> = map_of (define_prop (fst p) (snd p) target) ++ map_of (rev ps)"
    by (rule Cons.IH)
  also have "\<dots> = (map_of target)(fst p \<mapsto> snd p) ++ map_of (rev ps)"
    by (simp only: map_of_define_prop)
  also note step
  finally show ?case .
qed

lemma distinct_fold_define_prop:
  "distinct (map fst target) \<Longrightarrow>
   distinct (map fst (fold (\<lambda>p. define_prop (fst p) (snd p)) ps target))"
  by (induction ps arbitrary: target) (simp_all add: distinct_define_prop)

lemma map_of_rev_distinct:
  "distinct (map fst ps) \<Longrightarrow> map_of (rev ps) = map_of ps"
  by (rule map_of_inject_set [THEN iffD2]) (simp_all add: distinct_rev rev_map [symmetric])

lemma fold_define_prop_appends:
  "distinct (map fst (target @ ps)) \<Longrightarrow> list_all (\<lambda>p. \<not> is_array_index (fst p)) ps \<Longrightarrow>
   fold (\<lambda>p. define_prop (fst p) (snd p)) ps target = target @ ps"
proof (induction ps arbitrary: target)
  case Nil
  then show ?case by simp
next
  case (Cons p ps)
  from Cons.prems have "map_of target (fst p) = None"
    by (auto simp: map_of_eq_None_iff)
  with Cons.prems have "define_prop (fst p) (snd p) target = target @ [p]"
    by (simp add: define_prop_def)
  moreover from Cons.prems have "distinct (map fst ((target @ [p]) @ ps))"
    by simp
  moreover from Cons.prems have "list_all (\<lambda>p. \<not> is_array_index (fst p)) ps"
    by simp
  ultimately show ?case
    using Cons.IH [of "target @ [p]"] by simp
qed

lemma defineErrors_fold:
  "fold (\<lambda>tag result. result(tag \<mapsto> c tag)) keys m t
     = (if t \<in> set keys then Some (c t) else m t)"
  by (induction keys arbitrary: m) auto

lemma defineErrors_lookup:
  "defineErrors definitions t
     = (if t \<in> fst ` set definitions then Some (tagged_ctor t) else None)"
  by (simp add: defineErrors_def defineErrors_fold)

text \<open>
  C10. \<open>Box.fail(tag, props)\<close>, \<open>AsyncBox.fail(tag, props)\<close> and the constructor
  \<open>defineErrors\<close> stores under \<open>tag\<close> all build the same object,
  \<open>{ _tag: tag, ...props }\<close>. Without props it is \<open>{ _tag: tag }\<close>. With props that
  have no \<open>_tag\<close> key it is the record of the given fields plus \<open>_tag = tag\<close> (and,
  when no key is an array index, the fields follow \<open>_tag\<close> in their order). With props
  that have a \<open>_tag\<close> key it has exactly the fields of props: the discriminant is
  \<open>props._tag\<close>, not the requested tag.
\<close>

theorem tagged_constructors_stamp_then_spread:
  "Box_fail tag props s = new_Box (Err (tagged_ctor tag props)) s
 \<and> AsyncBox_fail tag props = AsyncBox (Fulfilled (Err (tagged_ctor tag props)))
 \<and> (tag \<in> fst ` set definitions \<longrightarrow> defineErrors definitions tag = Some (tagged_ctor tag))
 \<and> tagged_ctor tag None = JObj [(''_tag'', JStr tag)]
 \<and> (distinct (map fst ps) \<longrightarrow>
      (\<exists>obj. tagged_ctor tag (Some ps) = JObj obj \<and> distinct (map fst obj)
         \<and> (map_of ps ''_tag'' = None \<longrightarrow>
               map_of obj = (map_of ps)(''_tag'' \<mapsto> JStr tag) \<and> has_tag (JObj obj) tag)
         \<and> (\<forall>x. map_of ps ''_tag'' = Some x \<longrightarrow>
               map_of obj = map_of ps \<and> read_tag (JObj obj) = Inr x)))
 \<and> (distinct (map fst ps) \<and> map_of ps ''_tag'' = None
      \<and> list_all (\<lambda>p. \<not> is_array_index (fst p)) ps \<longrightarrow>
      tagged_ctor tag (Some ps) = JObj ((''_tag'', JStr tag) # ps))"
proof (intro conjI impI)
  show "Box_fail tag props s = new_Box (Err (tagged_ctor tag props)) s"
    by (simp add: Box_fail_def Box_err_def err_def tagged_ctor_def)
  show "AsyncBox_fail tag props = AsyncBox (Fulfilled (Err (tagged_ctor tag props)))"
    by (simp add: AsyncBox_fail_def AsyncBox_err_def Promise_resolve_def err_def tagged_ctor_def)
  show "tagged_ctor tag None = JObj [(''_tag'', JStr tag)]"
    by (simp add: tagged_ctor_def spread_def)
next
  assume "tag \<in> fst ` set definitions"
  then show "defineErrors definitions tag = Some (tagged_ctor tag)"
    by (simp add: defineErrors_lookup)
next
  assume d: "distinct (map fst ps)"
  let ?obj = "fold (\<lambda>p. define_prop (fst p) (snd p)) ps [(''_tag'', JStr tag)]"
  have ctor: "tagged_ctor tag (Some ps) = JObj ?obj"
    by (simp add: tagged_ctor_def spread_def)
  have dist: "distinct (map fst ?obj)"
    by (rule distinct_fold_define_prop) simp
  have m: "map_of ?obj = [''_tag'' \<mapsto> JStr tag] ++ map_of ps"
    using d by (simp add: map_of_fold_define_prop map_of_rev_distinct)
  have fresh: "map_of ps ''_tag'' = None \<longrightarrow>
         map_of ?obj = (map_of ps)(''_tag'' \<mapsto> JStr tag) \<and> has_tag (JObj ?obj) tag"
    by (auto simp: m has_tag_def read_tag_def map_add_def fun_eq_iff split: option.splits)
  have forged: "\<forall>x. map_of ps ''_tag'' = Some x \<longrightarrow>
         map_of ?obj = map_of ps \<and> read_tag (JObj ?obj) = Inr x"
    by (auto simp: m read_tag_def map_add_def fun_eq_iff split: option.splits)
  from ctor dist fresh forged
  show "\<exists>obj. tagged_ctor tag (Some ps) = JObj obj \<and> distinct (map fst obj)
         \<and> (map_of ps ''_tag'' = None \<longrightarrow>
               map_of obj = (map_of ps)(''_tag'' \<mapsto> JStr tag) \<and> has_tag (JObj obj) tag)
         \<and> (\<forall>x. map_of ps ''_tag'' = Some x \<longrightarrow>
               map_of obj = map_of ps \<and> read_tag (JObj obj) = Inr x)"
    by (intro exI [of _ ?obj] conjI)
next
  assume a: "distinct (map fst ps) \<and> map_of ps ''_tag'' = None
      \<and> list_all (\<lambda>p. \<not> is_array_index (fst p)) ps"
  then have "distinct (map fst ([(''_tag'', JStr tag)] @ ps))"
    by (auto simp: map_of_eq_None_iff)
  with a have "fold (\<lambda>p. define_prop (fst p) (snd p)) ps [(''_tag'', JStr tag)]
                 = [(''_tag'', JStr tag)] @ ps"
    by (intro fold_define_prop_appends) simp_all
  then show "tagged_ctor tag (Some ps) = JObj ((''_tag'', JStr tag) # ps)"
    by (simp add: tagged_ctor_def spread_def)
qed

theorem tagged_constructors_stamp_then_spread_witness:
  "distinct (map fst forged_props)
   \<and> map_of forged_props ''_tag'' = Some (JStr ''Forged'')
   \<and> read_tag (tagged_ctor ''NotFound'' (Some forged_props)) = Inr (JStr ''Forged'')
   \<and> distinct (map fst notFound_props) \<and> map_of notFound_props ''_tag'' = None
   \<and> list_all (\<lambda>p. \<not> is_array_index (fst p)) notFound_props
   \<and> tagged_ctor ''NotFound'' (Some notFound_props) = notFound123
   \<and> Box_fail ''NotFound'' (Some notFound_props) start_world
       = (Inr 0, \<lparr>boxes = [Err notFound123], ext = []\<rparr>)
   \<and> AsyncBox_fail ''NotFound'' (Some notFound_props) = AsyncBox (Fulfilled (Err notFound123))
   \<and> ''NotFound'' \<in> fst ` set user_definitions
   \<and> defineErrors user_definitions ''NotFound'' = Some (tagged_ctor ''NotFound'')"
proof -
  note forged = tagged_constructors_stamp_then_spread
      [of "''NotFound''" "Some forged_props" start_world user_definitions forged_props]
  note plain = tagged_constructors_stamp_then_spread
      [of "''NotFound''" "Some notFound_props" start_world user_definitions notFound_props]
  have d1: "distinct (map fst forged_props)"
    and m1: "map_of forged_props ''_tag'' = Some (JStr ''Forged'')"
    by (simp_all add: forged_props_def)
  have d2: "distinct (map fst notFound_props)"
    and m2: "map_of notFound_props ''_tag'' = None"
    and i2: "list_all (\<lambda>p. \<not> is_array_index (fst p)) notFound_props"
    by (simp_all add: notFound_props_def is_array_index_def is_digit_def)
  have k: "''NotFound'' \<in> fst ` set user_definitions"
    by (simp add: user_definitions_def)
  from forged d1 m1 obtain obj where
    "tagged_ctor ''NotFound'' (Some forged_props) = JObj obj" "read_tag (JObj obj) = Inr (JStr ''Forged'')"
    by blast
  then have a: "read_tag (tagged_ctor ''NotFound'' (Some forged_props)) = Inr (JStr ''Forged'')"
    by simp
  from plain d2 m2 i2
  have "tagged_ctor ''NotFound'' (Some notFound_props) = JObj ((''_tag'', JStr ''NotFound'') # notFound_props)"
    by blast
  then have b: "tagged_ctor ''NotFound'' (Some notFound_props) = notFound123"
    by (simp add: notFound_props_def notFound123_def)
  from plain have "Box_fail ''NotFound'' (Some notFound_props) start_world
      = new_Box (Err (tagged_ctor ''NotFound'' (Some notFound_props))) start_world"
    by blast
  with b have c: "Box_fail ''NotFound'' (Some notFound_props) start_world
       = (Inr 0, \<lparr>boxes = [Err notFound123], ext = []\<rparr>)"
    by (simp add: new_Box_def start_world_def)
  from plain have "AsyncBox_fail ''NotFound'' (Some notFound_props)
      = AsyncBox (Fulfilled (Err (tagged_ctor ''NotFound'' (Some notFound_props))))"
    by blast
  with b have d: "AsyncBox_fail ''NotFound'' (Some notFound_props)
      = AsyncBox (Fulfilled (Err notFound123))"
    by simp
  from plain k have e: "defineErrors user_definitions ''NotFound'' = Some (tagged_ctor ''NotFound'')"
    by blast
  from d1 m1 a d2 m2 i2 b c d k e show ?thesis by (intro conjI)
qed


section \<open>The asynchronous wrapper\<close>

lemma fromPromise_Fulfilled:
  "AsyncBox_fromPromise (Fulfilled v) onError = AsyncBox (Fulfilled (Ok v))"
  by (simp add: AsyncBox_fromPromise_def promise_then_def promise_catch_def ok_def)

lemma fromPromise_Rejected:
  "onError e = Inr x \<Longrightarrow> AsyncBox_fromPromise (Rejected e) onError = AsyncBox (Fulfilled (Err x))"
  by (simp add: AsyncBox_fromPromise_def promise_then_def promise_catch_def err_def)

lemma unknownError_of_Error:
  "unknownError (JError name msg)
     = Inr (JObj [(''_tag'', JStr ''UnknownError''), (''cause'', JError name msg),
                  (''message'', JStr msg)])"
  by (simp add: unknownError_def)

lemma AsyncBox_wrap_of_returned_promise:
  "fn () = Inr p \<Longrightarrow>
   AsyncBox_wrap (WrapFn fn) = Inr (AsyncBox_fromPromise p unknownError)
   \<and> AsyncBox_wrap (WrapConfig fn onError) = Inr (AsyncBox_fromPromise p onError)"
  by (simp add: AsyncBox_wrap_def)

lemma AsyncBox_wrap_of_throwing_call:
  "fn () = Inl x \<Longrightarrow>
   AsyncBox_wrap (WrapFn fn) = Inl x \<and> AsyncBox_wrap (WrapConfig fn onError) = Inl x"
  by (simp add: AsyncBox_wrap_def)

text \<open>
  C7. For a function that returns a promise, \<open>AsyncBox.wrap\<close> does what is claimed:
  \<open>() => Promise.resolve(42)\<close> gives a wrapper that yields \<open>Ok 42\<close>; a promise rejected
  with \<open>new Error("Failed")\<close> gives \<open>Err\<close> of the variant with tag \<open>UnknownError\<close>, that
  error as cause and \<open>Failed\<close> as message; rejected with the string \<open>string error\<close>, the
  message is \<open>String(cause)\<close>; and the config form applies its \<open>catch\<close> mapping. But the
  function is called outside any \<open>try\<close> and outside the promise chain. When it raises
  before it returns a promise, as \<open>() => Promise.resolve(JSON.parse("{"))\<close> does, there
  is no wrapper and no \<open>UnknownError\<close>: \<open>wrap\<close> itself throws the raised value, in the
  config form too.
\<close>

theorem AsyncBox_wrap_lets_synchronous_raise_escape:
  "AsyncBox_wrap (WrapFn resolves_42) = Inr (AsyncBox (Fulfilled (Ok (JNum 42))))
   \<and> AsyncBox_wrap (WrapFn rejects_failed)
       = Inr (AsyncBox (Fulfilled (Err (JObj [(''_tag'', JStr ''UnknownError''),
              (''cause'', JError ''Error'' ''Failed''), (''message'', JStr ''Failed'')]))))
   \<and> AsyncBox_wrap (WrapFn rejects_string)
       = Inr (AsyncBox (Fulfilled (Err (JObj [(''_tag'', JStr ''UnknownError''),
              (''cause'', JStr ''string error''), (''message'', JStr ''string error'')]))))
   \<and> AsyncBox_wrap (WrapConfig rejects_failed to_fetch_error)
       = Inr (AsyncBox (Fulfilled (Err (JObj [(''_tag'', JStr ''FetchError''),
              (''cause'', JError ''Error'' ''Failed'')]))))
   \<and> AsyncBox_wrap (WrapFn parse_invalid_json)
       = Inl (JError ''SyntaxError'' ''Unexpected end of JSON input'')
   \<and> AsyncBox_wrap (WrapFn throws_synchronously) = Inl (JError ''Error'' ''boom'')
   \<and> AsyncBox_wrap (WrapConfig throws_synchronously to_fetch_error)
       = Inl (JError ''Error'' ''boom'')"
proof -
  have a: "AsyncBox_wrap (WrapFn resolves_42) = Inr (AsyncBox (Fulfilled (Ok (JNum 42))))"
    by (simp add: AsyncBox_wrap_def resolves_42_def fromPromise_Fulfilled)
  have b: "AsyncBox_wrap (WrapFn rejects_failed)
       = Inr (AsyncBox (Fulfilled (Err (JObj [(''_tag'', JStr ''UnknownError''),
              (''cause'', JError ''Error'' ''Failed''), (''message'', JStr ''Failed'')]))))"
    by (simp add: AsyncBox_wrap_def rejects_failed_def fromPromise_Rejected unknownError_of_Error)
  have "unknownError (JStr ''string error'')
          = Inr (JObj [(''_tag'', JStr ''UnknownError''), (''cause'', JStr ''string error''),
                       (''message'', JStr ''string error'')])"
    by (simp add: unknownError_def)
  then have c: "AsyncBox_wrap (WrapFn rejects_string)
       = Inr (AsyncBox (Fulfilled (Err (JObj [(''_tag'', JStr ''UnknownError''),
              (''cause'', JStr ''string error''), (''message'', JStr ''string error'')]))))"
    by (simp add: AsyncBox_wrap_def rejects_string_def fromPromise_Rejected)
  have d: "AsyncBox_wrap (WrapConfig rejects_failed to_fetch_error)
       = Inr (AsyncBox (Fulfilled (Err (JObj [(''_tag'', JStr ''FetchError''),
              (''cause'', JError ''Error'' ''Failed'')]))))"
    by (simp add: AsyncBox_wrap_def rejects_failed_def fromPromise_Rejected to_fetch_error_def)
  have e: "AsyncBox_wrap (WrapFn parse_invalid_json)
       = Inl (JError ''SyntaxError'' ''Unexpected end of JSON input'')"
    by (simp add: AsyncBox_wrap_def parse_invalid_json_def)
  have f: "AsyncBox_wrap (WrapFn throws_synchronously) = Inl (JError ''Error'' ''boom'')"
    and g: "AsyncBox_wrap (WrapConfig throws_synchronously to_fetch_error)
       = Inl (JError ''Error'' ''boom'')"
    by (simp_all add: AsyncBox_wrap_def throws_synchronously_def)
  from a b c d e f g show ?thesis by (intro conjI)
qed

section \<open>Wrappers are never mutated\<close>

lemma keeps_store_return [simp]: "keeps_store (js_return a)"
  by (simp add: keeps_store_def js_return_def)

lemma keeps_store_throw [simp]: "keeps_store (js_throw x)"
  by (simp add: keeps_store_def js_throw_def)

lemma keeps_store_lift [simp]: "keeps_store (js_lift x)"
  by (simp add: keeps_store_def js_lift_def)

lemma keeps_store_this_result [simp]: "keeps_store (this_result this)"
  by (simp add: keeps_store_def this_result_def)

lemma keeps_store_new_Box [simp]: "keeps_store (new_Box r)"
  by (simp add: keeps_store_def new_Box_def)























end
